theory Spec2Isabelle
  imports Complex_Main
begin

section \<open>Unscented Kalman filter (ukf.cpp): a shallow embedding\<close>

text \<open>
  The filter of \<^verbatim>\<open>src/src/ukf.cpp\<close> is embedded function by function. Conventions:
  \<^item> a C++ \<^verbatim>\<open>double\<close> or \<^verbatim>\<open>float\<close> is a \<^typ>\<open>real\<close>: rounding, infinities and NaN are
    not modelled, so every statement below is about the arithmetic the code writes down,
    carried out exactly;
  \<^item> an Eigen \<^verbatim>\<open>VectorXd\<close> is a list of reals, an Eigen \<^verbatim>\<open>MatrixXd\<close> is the list of its
    columns (Eigen's default storage order), so \<^verbatim>\<open>M.col(j)\<close> is \<open>M ! j\<close> and \<^verbatim>\<open>M(i,j)\<close> is
    \<open>M ! j ! i\<close>; Eigen asserts on an index out of range or on mismatched sizes, and the
    statements below are about inputs of the sizes the code expects;
  \<^item> a member \<^verbatim>\<open>name_\<close> of the classes is written \<open>name_m\<close> (a name cannot end in an
    underscore here);
  \<^item> the member functions mutate the filter; here they take the filter and return the
    new one;
  \<^item> what the code calls but the sources do not hold (Eigen's \<^verbatim>\<open>llt()\<close> and
    \<^verbatim>\<open>inverse()\<close>, \<^verbatim>\<open>Tools::NormalizeAngle\<close>) is a parameter of the model, the
    record \<open>externals\<close>;
  \<^item> the headers \<^verbatim>\<open>ukf.h\<close> and \<^verbatim>\<open>measurement_package.h\<close> are not among the sources: the
    members of the two classes are the ones \<^verbatim>\<open>ukf.cpp\<close> reads and writes, timestamps are
    integers, dimensions are natural numbers.
\<close>

subsection \<open>Vectors and matrices\<close>

type_synonym vec = "real list"
type_synonym mat = "real list list"

definition Zero_vec :: "nat \<Rightarrow> vec" where
  "Zero_vec n = replicate n 0"

definition Zero_mat :: "nat \<Rightarrow> nat \<Rightarrow> mat" where
  "Zero_mat r c = replicate c (replicate r 0)"

definition Identity :: "nat \<Rightarrow> nat \<Rightarrow> mat" where
  "Identity r c = map (\<lambda>j. map (\<lambda>i. if i = j then 1 else 0) [0..<r]) [0..<c]"

definition vec_add :: "vec \<Rightarrow> vec \<Rightarrow> vec" where
  "vec_add u v = map2 (+) u v"

definition vec_sub :: "vec \<Rightarrow> vec \<Rightarrow> vec" where
  "vec_sub u v = map2 (-) u v"

definition smult :: "real \<Rightarrow> vec \<Rightarrow> vec" where
  "smult a v = map ((*) a) v"

definition mat_add :: "mat \<Rightarrow> mat \<Rightarrow> mat" where
  "mat_add A B = map2 vec_add A B"

definition mat_sub :: "mat \<Rightarrow> mat \<Rightarrow> mat" where
  "mat_sub A B = map2 vec_sub A B"

definition coeff :: "mat \<Rightarrow> nat \<Rightarrow> nat \<Rightarrow> real" where
  "coeff M i j = M ! j ! i"

definition set_coeff :: "mat \<Rightarrow> nat \<Rightarrow> nat \<Rightarrow> real \<Rightarrow> mat" where
  "set_coeff M i j a = M[j := (M ! j)[i := a]]"

definition rows :: "mat \<Rightarrow> nat" where
  "rows M = (case M of [] \<Rightarrow> 0 | c # _ \<Rightarrow> length c)"

definition row :: "mat \<Rightarrow> nat \<Rightarrow> vec" where
  "row M i = map (\<lambda>c. c ! i) M"

definition dot :: "vec \<Rightarrow> vec \<Rightarrow> real" where
  "dot u v = sum_list (map2 (*) u v)"

text \<open>\<^verbatim>\<open>M * v\<close>, \<^verbatim>\<open>A * B\<close>, \<^verbatim>\<open>M.transpose()\<close>, \<^verbatim>\<open>u * v.transpose()\<close> and
  \<^verbatim>\<open>z.transpose() * M\<close>.\<close>

definition mat_vec :: "mat \<Rightarrow> vec \<Rightarrow> vec" where
  "mat_vec M v = map (\<lambda>i. dot (row M i) v) [0..<rows M]"

definition mat_mul :: "mat \<Rightarrow> mat \<Rightarrow> mat" where
  "mat_mul A B = map (mat_vec A) B"

definition transpose_mat :: "mat \<Rightarrow> mat" where
  "transpose_mat M = map (row M) [0..<rows M]"

definition outer :: "vec \<Rightarrow> vec \<Rightarrow> mat" where
  "outer u v = map (\<lambda>b. smult b u) v"

definition vec_mat :: "vec \<Rightarrow> mat \<Rightarrow> vec" where
  "vec_mat z M = map (dot z) M"

text \<open>\<^verbatim>\<open>M.block(i0, j0, r, c)\<close>, \<^verbatim>\<open>M.topLeftCorner(r, c) = B\<close> and \<^verbatim>\<open>v.head(n) = u\<close>.\<close>

definition block :: "mat \<Rightarrow> nat \<Rightarrow> nat \<Rightarrow> nat \<Rightarrow> nat \<Rightarrow> mat" where
  "block M i0 j0 r c = map (\<lambda>col. take r (drop i0 col)) (take c (drop j0 M))"

definition set_topLeftCorner :: "mat \<Rightarrow> nat \<Rightarrow> nat \<Rightarrow> mat \<Rightarrow> mat" where
  "set_topLeftCorner M r c B =
     map (\<lambda>j. if j < c then take r (B ! j) @ drop r (M ! j) else M ! j) [0..<length M]"

definition set_head :: "vec \<Rightarrow> nat \<Rightarrow> vec \<Rightarrow> vec" where
  "set_head v n u = take n u @ drop n v"

subsection \<open>The C library and \<^verbatim>\<open>numeric_limits\<close>\<close>

text \<open>\<^verbatim>\<open>atan2(y, x)\<close> of the C library, with its value 0 at \<open>(+0, +0)\<close>.\<close>

definition atan2 :: "real \<Rightarrow> real \<Rightarrow> real" where
  "atan2 y x =
     (if 0 < x then arctan (y / x)
      else if x < 0 \<and> 0 \<le> y then arctan (y / x) + pi
      else if x < 0 then arctan (y / x) - pi
      else if 0 < y then pi / 2
      else if y < 0 then - (pi / 2)
      else 0)"

text \<open>\<^verbatim>\<open>numeric_limits<double>::epsilon()\<close>.\<close>

definition epsilon :: real where
  "epsilon = 1 / 2 ^ 52"

subsection \<open>What the sources call and do not hold\<close>

text \<open>
  Eigen's \<^verbatim>\<open>A.llt()\<close> computes a factorization object that holds a status
  (\<^verbatim>\<open>info()\<close>) and the factor (\<^verbatim>\<open>matrixL()\<close>); \<^verbatim>\<open>S.inverse()\<close> returns a matrix;
  \<^verbatim>\<open>Tools::NormalizeAngle\<close> rewrites the angle it is given by reference.
\<close>

datatype ComputationInfo = Success | NumericalIssue

record externals =
  llt :: "mat \<Rightarrow> ComputationInfo \<times> mat"
  inverse_mat :: "mat \<Rightarrow> mat"
  NormalizeAngle :: "real \<Rightarrow> real"

definition matrixL :: "ComputationInfo \<times> mat \<Rightarrow> mat" where
  "matrixL f = snd f"

definition info :: "ComputationInfo \<times> mat \<Rightarrow> ComputationInfo" where
  "info f = fst f"

subsection \<open>The filter and the measurement package\<close>

text \<open>The two sensor types the code tests for; \<open>OTHER\<close> stands for any value of the
  enumeration's underlying integer that is neither.\<close>

datatype SensorType = LASER | RADAR | OTHER

record MeasurementPackage =
  timestamp_m :: int
  sensor_type_m :: SensorType
  raw_measurements_m :: vec

record UKF =
  is_initialized_m :: bool
  use_laser_m :: bool
  use_radar_m :: bool
  x_m :: vec
  P_m :: mat
  Xsig_pred_m :: mat
  time_us_m :: int
  std_a_m :: real
  std_yawdd_m :: real
  std_laspx_m :: real
  std_laspy_m :: real
  std_radr_m :: real
  std_radphi_m :: real
  std_radrd_m :: real
  weights_m :: vec
  n_x_m :: nat
  n_aug_m :: nat
  n_sig_m :: nat
  n_z_radar_m :: nat
  n_z_laser_m :: nat
  lambda_m :: real
  NIS_radar_m :: real
  NIS_laser_m :: real
  R_lidar_m :: mat
  R_radar_m :: mat

text \<open>The constructor \<^verbatim>\<open>UKF::UKF()\<close>. It leaves \<^verbatim>\<open>Xsig_pred_\<close> and \<^verbatim>\<open>weights_\<close>
  default-constructed, that is empty.\<close>

definition UKF_init :: UKF where
  "UKF_init =
     \<lparr> is_initialized_m = False,
       use_laser_m = True,
       use_radar_m = True,
       x_m = Zero_vec 5,
       P_m = Identity 5 5,
       Xsig_pred_m = [],
       time_us_m = 0,
       std_a_m = 0.25,
       std_yawdd_m = 20.0 / 100.0 * pi,
       std_laspx_m = 0.15,
       std_laspy_m = 0.15,
       std_radr_m = 0.3,
       std_radphi_m = 0.03,
       std_radrd_m = 0.3,
       weights_m = [],
       n_x_m = 5,
       n_aug_m = 7,
       n_sig_m = 2 * 7 + 1,
       n_z_radar_m = 3,
       n_z_laser_m = 2,
       lambda_m = 3 - 7,
       NIS_radar_m = 0.0,
       NIS_laser_m = 0.0,
       R_lidar_m = [[0.15 * 0.15, 0], [0, 0.15 * 0.15]],
       R_radar_m = [[0.3 * 0.3, 0, 0], [0, 0.03 * 0.03, 0], [0, 0, 0.3 * 0.3]] \<rparr>"

subsection \<open>Prediction\<close>

text \<open>\<^verbatim>\<open>UKF::AugmentedSigmaPoints\<close>: the augmented mean, the augmented covariance, its
  factor, and the sigma points. The loop writes columns \<open>i + 1\<close> and \<open>i + 1 + n_aug_\<close>.\<close>

definition x_aug :: "UKF \<Rightarrow> vec" where
  "x_aug s = ((set_head (Zero_vec (n_aug_m s)) 5 (x_m s))[5 := 0])[6 := 0]"

definition P_aug :: "UKF \<Rightarrow> mat" where
  "P_aug s =
     set_coeff
       (set_coeff (set_topLeftCorner (Zero_mat (n_aug_m s) (n_aug_m s)) 5 5 (P_m s))
          5 5 (std_a_m s * std_a_m s))
       6 6 (std_yawdd_m s * std_yawdd_m s)"

definition AugmentedSigmaPoints :: "externals \<Rightarrow> UKF \<Rightarrow> mat" where
  "AugmentedSigmaPoints E s =
     (let L = matrixL (llt E (P_aug s));
          Xsig_aug = (Zero_mat (n_aug_m s) (n_sig_m s))[0 := x_aug s]
      in fold (\<lambda>i X.
           (X[i + 1 := vec_add (x_aug s) (smult (sqrt (lambda_m s + real (n_aug_m s))) (L ! i))])
             [i + 1 + n_aug_m s :=
                vec_sub (x_aug s) (smult (sqrt (lambda_m s + real (n_aug_m s))) (L ! i))])
           [0..<n_aug_m s] Xsig_aug)"

text \<open>The body of the loop of \<^verbatim>\<open>UKF::SigmaPointPrediction\<close>, for one column, and the
  loop.\<close>

definition SigmaPointPrediction_col :: "real \<Rightarrow> vec \<Rightarrow> vec" where
  "SigmaPointPrediction_col delta_t c =
     (let p_x = c ! 0; p_y = c ! 1; v = c ! 2; yaw = c ! 3; yawd = c ! 4;
          nu_a = c ! 5; nu_yawdd = c ! 6;
          (px_p, py_p) =
            (if \<bar>yawd\<bar> > 0.001
             then (p_x + v / yawd * (sin (yaw + yawd * delta_t) - sin yaw),
                   p_y + v / yawd * (cos yaw - cos (yaw + yawd * delta_t)))
             else (p_x + v * delta_t * cos yaw,
                   p_y + v * delta_t * sin yaw));
          v_p = v;
          yaw_p = yaw + yawd * delta_t;
          yawd_p = yawd;
          px_p = px_p + 0.5 * nu_a * delta_t * delta_t * cos yaw;
          py_p = py_p + 0.5 * nu_a * delta_t * delta_t * sin yaw;
          v_p = v_p + nu_a * delta_t;
          yaw_p = yaw_p + 0.5 * nu_yawdd * delta_t * delta_t;
          yawd_p = yawd_p + nu_yawdd * delta_t
      in [px_p, py_p, v_p, yaw_p, yawd_p])"

definition SigmaPointPrediction :: "UKF \<Rightarrow> mat \<Rightarrow> real \<Rightarrow> mat" where
  "SigmaPointPrediction s Xsig_aug delta_t =
     fold (\<lambda>i X. X[i := SigmaPointPrediction_col delta_t (Xsig_aug ! i)])
       [0..<n_sig_m s] (Zero_mat (n_x_m s) (n_sig_m s))"

text \<open>\<^verbatim>\<open>UKF::PredictMeanAndCovariance\<close>: the weights, the predicted mean and the predicted
  covariance, in the order of its three out-parameters.\<close>

definition set_weights :: "UKF \<Rightarrow> vec" where
  "set_weights s =
     (replicate (n_sig_m s) (0.5 / (lambda_m s + real (n_aug_m s))))
       [0 := lambda_m s / (lambda_m s + real (n_aug_m s))]"

definition PredictMeanAndCovariance :: "externals \<Rightarrow> UKF \<Rightarrow> vec \<times> mat \<times> vec" where
  "PredictMeanAndCovariance E s =
     (let weights = set_weights s;
          x = vec_add (Zero_vec (n_x_m s)) (mat_vec (Xsig_pred_m s) weights);
          P = fold (\<lambda>i P.
                (let x_diff = vec_sub (Xsig_pred_m s ! i) x;
                     x_diff = x_diff[3 := NormalizeAngle E (x_diff ! 3)]
                 in mat_add P (outer (smult (weights ! i) x_diff) x_diff)))
                [0..<n_sig_m s] (Zero_mat (n_x_m s) (n_x_m s))
      in (x, P, weights))"

text \<open>\<^verbatim>\<open>UKF::Prediction\<close>.\<close>

definition Prediction :: "externals \<Rightarrow> UKF \<Rightarrow> real \<Rightarrow> UKF" where
  "Prediction E s delta_t =
     (let Xsig_aug = AugmentedSigmaPoints E s;
          s1 = s\<lparr>Xsig_pred_m := SigmaPointPrediction s Xsig_aug delta_t\<rparr>;
          (x, P, weights) = PredictMeanAndCovariance E s1
      in s1\<lparr>x_m := x, P_m := P, weights_m := weights\<rparr>)"

subsection \<open>Update\<close>

text \<open>The parts both updates share: the predicted measurement mean, and the measurement
  covariance and cross correlation, whose loops differ in the angle normalization only
  (\<open>nz\<close> says whether the residual's component 1 is an angle).\<close>

definition z_pred_of :: "UKF \<Rightarrow> nat \<Rightarrow> mat \<Rightarrow> vec" where
  "z_pred_of s n_z Zsig =
     fold (\<lambda>i z_pred. vec_add z_pred (smult (weights_m s ! i) (Zsig ! i)))
       [0..<n_sig_m s] (Zero_vec n_z)"

definition z_diff_of :: "externals \<Rightarrow> bool \<Rightarrow> vec \<Rightarrow> vec \<Rightarrow> vec" where
  "z_diff_of E nz a b =
     (let z_diff = vec_sub a b
      in if nz then z_diff[1 := NormalizeAngle E (z_diff ! 1)] else z_diff)"

definition S_of :: "externals \<Rightarrow> bool \<Rightarrow> UKF \<Rightarrow> nat \<Rightarrow> mat \<Rightarrow> vec \<Rightarrow> mat \<Rightarrow> mat" where
  "S_of E nz s n_z Zsig z_pred R =
     mat_add
       (fold (\<lambda>i S.
          (let z_diff = z_diff_of E nz (Zsig ! i) z_pred
           in mat_add S (outer (smult (weights_m s ! i) z_diff) z_diff)))
          [0..<n_sig_m s] (Zero_mat n_z n_z))
       R"

definition Tc_of :: "externals \<Rightarrow> bool \<Rightarrow> UKF \<Rightarrow> nat \<Rightarrow> mat \<Rightarrow> vec \<Rightarrow> mat" where
  "Tc_of E nz s n_z Zsig z_pred =
     fold (\<lambda>i Tc.
       (let z_diff = z_diff_of E nz (Zsig ! i) z_pred;
            x_diff = vec_sub (Xsig_pred_m s ! i) (x_m s);
            x_diff = x_diff[3 := NormalizeAngle E (x_diff ! 3)]
        in mat_add Tc (outer (smult (weights_m s ! i) x_diff) z_diff)))
       [0..<n_sig_m s] (Zero_mat (n_x_m s) n_z)"

text \<open>\<^verbatim>\<open>UKF::UpdateLidar\<close>.\<close>

definition Zsig_lidar :: "UKF \<Rightarrow> mat" where
  "Zsig_lidar s = block (Xsig_pred_m s) 0 0 (n_z_laser_m s) (n_sig_m s)"

definition S_lidar :: "externals \<Rightarrow> UKF \<Rightarrow> mat" where
  "S_lidar E s =
     S_of E False s (n_z_laser_m s) (Zsig_lidar s)
       (z_pred_of s (n_z_laser_m s) (Zsig_lidar s)) (R_lidar_m s)"

definition UpdateLidar :: "externals \<Rightarrow> UKF \<Rightarrow> MeasurementPackage \<Rightarrow> UKF" where
  "UpdateLidar E s meas_package =
     (let z = raw_measurements_m meas_package;
          Zsig = Zsig_lidar s;
          z_pred = z_pred_of s (n_z_laser_m s) Zsig;
          S = S_lidar E s;
          Tc = Tc_of E False s (n_z_laser_m s) Zsig z_pred;
          K = mat_mul Tc (inverse_mat E S);
          z_diff = vec_sub z z_pred
      in s\<lparr> x_m := vec_add (x_m s) (mat_vec K z_diff),
             P_m := mat_sub (P_m s) (mat_mul (mat_mul K S) (transpose_mat K)),
             NIS_laser_m := dot (vec_mat z_diff (inverse_mat E S)) z_diff \<rparr>)"

text \<open>\<^verbatim>\<open>UKF::UpdateRadar\<close>. The guard of its measurement model replaces a position whose
  two coordinates are both below machine epsilon; the range is computed before it.\<close>

definition radar_guard :: "real \<Rightarrow> real \<Rightarrow> real \<times> real" where
  "radar_guard p_x p_y =
     (if \<bar>p_x\<bar> < epsilon \<and> \<bar>p_y\<bar> < epsilon then (epsilon, epsilon) else (p_x, p_y))"

definition Zsig_radar_col :: "vec \<Rightarrow> real \<times> real \<times> real" where
  "Zsig_radar_col c =
     (let p_x = c ! 0; p_y = c ! 1; v = c ! 2; yaw = c ! 3;
          v1 = cos yaw * v;
          v2 = sin yaw * v;
          r = sqrt (p_x * p_x + p_y * p_y);
          (p_x, p_y) = radar_guard p_x p_y
      in (r, atan2 p_y p_x, (p_x * v1 + p_y * v2) / sqrt (p_x * p_x + p_y * p_y)))"

definition Zsig_radar :: "UKF \<Rightarrow> mat" where
  "Zsig_radar s =
     fold (\<lambda>i Zsig.
       (let (r, phi, r_dot) = Zsig_radar_col (Xsig_pred_m s ! i)
        in set_coeff (set_coeff (set_coeff Zsig 0 i r) 1 i phi) 2 i r_dot))
       [0..<n_sig_m s] (Zero_mat (n_z_radar_m s) (n_sig_m s))"

definition S_radar :: "externals \<Rightarrow> UKF \<Rightarrow> mat" where
  "S_radar E s =
     S_of E True s (n_z_radar_m s) (Zsig_radar s)
       (z_pred_of s (n_z_radar_m s) (Zsig_radar s)) (R_radar_m s)"

definition UpdateRadar :: "externals \<Rightarrow> UKF \<Rightarrow> MeasurementPackage \<Rightarrow> UKF" where
  "UpdateRadar E s meas_package =
     (let z = raw_measurements_m meas_package;
          Zsig = Zsig_radar s;
          z_pred = z_pred_of s (n_z_radar_m s) Zsig;
          S = S_radar E s;
          Tc = Tc_of E True s (n_z_radar_m s) Zsig z_pred;
          K = mat_mul Tc (inverse_mat E S);
          z_diff = z_diff_of E True z z_pred
      in s\<lparr> x_m := vec_add (x_m s) (mat_vec K z_diff),
             P_m := mat_sub (P_m s) (mat_mul (mat_mul K S) (transpose_mat K)),
             NIS_radar_m := dot (vec_mat z_diff (inverse_mat E S)) z_diff \<rparr>)"

subsection \<open>\<^verbatim>\<open>UKF::ProcessMeasurement\<close>\<close>

definition delta_t_of :: "UKF \<Rightarrow> MeasurementPackage \<Rightarrow> real" where
  "delta_t_of s meas_package =
     real_of_int (timestamp_m meas_package - time_us_m s) / 1000000.0"

definition ProcessMeasurement :: "externals \<Rightarrow> UKF \<Rightarrow> MeasurementPackage \<Rightarrow> UKF" where
  "ProcessMeasurement E s meas_package =
     (if \<not> is_initialized_m s then
        (let s1 =
           (if use_radar_m s \<and> sensor_type_m meas_package = RADAR then
              (let ro = raw_measurements_m meas_package ! 0;
                   phi = raw_measurements_m meas_package ! 1;
                   ro_dot = raw_measurements_m meas_package ! 2
               in s\<lparr> x_m := [ro * cos phi, ro * sin phi, ro_dot, 0, 0],
                      is_initialized_m := True \<rparr>)
            else if use_laser_m s \<and> sensor_type_m meas_package = LASER then
              s\<lparr> x_m := [raw_measurements_m meas_package ! 0,
                         raw_measurements_m meas_package ! 1, 0, 0, 0],
                 is_initialized_m := True \<rparr>
            else s)
         in s1\<lparr> time_us_m := timestamp_m meas_package \<rparr>)
      else
        (let delta_t = delta_t_of s meas_package;
             s1 = s\<lparr> time_us_m := timestamp_m meas_package \<rparr>;
             s2 = Prediction E s1 delta_t
         in if use_radar_m s2 \<and> sensor_type_m meas_package = RADAR then
              UpdateRadar E s2 meas_package
            else if use_laser_m s2 \<and> sensor_type_m meas_package = LASER then
              UpdateLidar E s2 meas_package
            else s2))"

subsection \<open>A reference instance of the externals\<close>

text \<open>
  Closed examples need the externals in executable form.

  \<^verbatim>\<open>llt()\<close>: Eigen factors a matrix of this size with its unblocked in-place algorithm.
  For each diagonal index \<open>k\<close> it takes \<open>x = A(k,k) - |A(k,0..k-1)|\<^sup>2\<close>, returns \<open>k\<close> at once
  when \<open>x \<le> 0\<close> (the status is then \<^verbatim>\<open>NumericalIssue\<close>, the rest of the matrix is left
  as it was), and otherwise stores \<open>sqrt x\<close> and finishes column \<open>k\<close> below the diagonal;
  \<^verbatim>\<open>matrixL()\<close> is the lower triangle of the result.

  \<^verbatim>\<open>inverse()\<close>: the inverse by cofactors, for the sizes 1 to 3 (the filter inverts
  matrices of size 2 and 3).
\<close>

fun llt_unblocked :: "nat list \<Rightarrow> mat \<Rightarrow> nat option \<times> mat" where
  "llt_unblocked [] m = (None, m)"
| "llt_unblocked (k # ks) m =
     (let x = coeff m k k - (\<Sum>j\<leftarrow>[0..<k]. coeff m k j * coeff m k j)
      in if x \<le> 0 then (Some k, m)
         else
           (let x = sqrt x;
                m1 = set_coeff m k k x;
                m2 = fold (\<lambda>i m'.
                       set_coeff m' i k
                         ((coeff m' i k - (\<Sum>j\<leftarrow>[0..<k]. coeff m i j * coeff m k j)) / x))
                       [k + 1..<rows m] m1
            in llt_unblocked ks m2))"

definition lower_triangle :: "mat \<Rightarrow> mat" where
  "lower_triangle m =
     map (\<lambda>j. map (\<lambda>i. if j \<le> i then coeff m i j else 0) [0..<rows m]) [0..<length m]"

definition eigen_llt :: "mat \<Rightarrow> ComputationInfo \<times> mat" where
  "eigen_llt A =
     (let (r, m) = llt_unblocked [0..<rows A] A
      in (if r = None then Success else NumericalIssue, lower_triangle m))"

fun inverse_cofactor :: "mat \<Rightarrow> mat" where
  "inverse_cofactor [[a]] = [[1 / a]]"
| "inverse_cofactor [[a, b], [c, d]] =
     (let det = a * d - c * b
      in [[d / det, - b / det], [- c / det, a / det]])"
| "inverse_cofactor [[a, b, c], [d, e, f], [g, h, i]] =
     (let det = a * (e * i - h * f) - d * (b * i - h * c) + g * (b * f - e * c)
      in [[(e * i - h * f) / det, (h * c - b * i) / det, (b * f - e * c) / det],
          [(g * f - d * i) / det, (a * i - g * c) / det, (d * c - a * f) / det],
          [(d * h - g * e) / det, (g * b - a * h) / det, (a * e - d * b) / det]])"
| "inverse_cofactor M = M"

text \<open>Modelled from the spec: \<^verbatim>\<open>Tools::NormalizeAngle\<close> (tools.cpp is not among the
  sources). The spec has the angle wrap map every input into the interval from \<open>-\<pi>\<close>
  (excluded) to \<open>\<pi>\<close> (included), which a shift by a whole number of turns does.\<close>

definition wrap_angle :: "real \<Rightarrow> real" where
  "wrap_angle a = a - 2 * pi * of_int \<lceil>(a - pi) / (2 * pi)\<rceil>"

definition E_ref :: externals where
  "E_ref = \<lparr> llt = eigen_llt, inverse_mat = inverse_cofactor, NormalizeAngle = wrap_angle \<rparr>"

subsection \<open>Predicates of the statements\<close>

text \<open>A square matrix of size \<open>n\<close>; a positive-definite matrix (the quadratic form is
  written as the code writes the NIS, \<^verbatim>\<open>y.transpose() * A * y\<close>); and \<open>B\<close> is the inverse
  of \<open>A\<close>.\<close>

definition square_mat :: "nat \<Rightarrow> mat \<Rightarrow> bool" where
  "square_mat n A \<longleftrightarrow> length A = n \<and> list_all (\<lambda>c. length c = n) A"

definition positive_definite :: "mat \<Rightarrow> bool" where
  "positive_definite A \<longleftrightarrow>
     square_mat (length A) A \<and>
     (\<forall>y. length y = length A \<and> y \<noteq> Zero_vec (length A) \<longrightarrow> 0 < dot (vec_mat y A) y)"

definition inverse_of :: "mat \<Rightarrow> mat \<Rightarrow> bool" where
  "inverse_of B A \<longleftrightarrow>
     square_mat (length A) B \<and> mat_mul A B = Identity (length A) (length A)"




subsection \<open>Example inputs\<close>

text \<open>A filter as constructed with the laser switched off, and the same filter once a radar
  reading (5, 0, 2) at time 0 has bootstrapped it.\<close>

definition laser_off :: UKF where
  "laser_off = UKF_init\<lparr> use_laser_m := False \<rparr>"

definition laser_off_ready :: UKF where
  "laser_off_ready =
     ProcessMeasurement E_ref laser_off
       \<lparr> timestamp_m = 0, sensor_type_m = RADAR, raw_measurements_m = [5, 0, 2] \<rparr>"

text \<open>An initialized filter whose covariance has a negative entry on its diagonal.\<close>

definition not_pd_filter :: UKF where
  "not_pd_filter =
     UKF_init\<lparr> is_initialized_m := True,
               P_m := [[- 1, 0, 0, 0, 0], [0, 1, 0, 0, 0], [0, 0, 1, 0, 0],
                       [0, 0, 0, 1, 0], [0, 0, 0, 0, 1]] \<rparr>"


text \<open>An initialized filter whose predicted sigma points all coincide with its state, with
  the weights a prediction stores.\<close>

definition nis_example :: UKF where
  "nis_example = UKF_init\<lparr> is_initialized_m := True, x_m := [1, 0, 0, 0, 0],
      Xsig_pred_m := replicate 15 [1, 0, 0, 0, 0],
      weights_m := (- 4 / 3) # replicate 14 (1 / 6) \<rparr>"

section \<open>Loops that write one column per iteration\<close>

lemma fold_upd_length: "length (fold (\<lambda>i X. X[i := f i X]) [0..<n] X) = length X"
  by (induction n) auto

lemma fold_upd_above:
  "n \<le> i \<Longrightarrow> fold (\<lambda>i X. X[i := f i X]) [0..<n] X ! i = X ! i"
  by (induction n) auto

lemma fold_upd_nth:
  "n \<le> length X \<Longrightarrow> i < n \<Longrightarrow>
   fold (\<lambda>i X. X[i := F i (X ! i)]) [0..<n] X ! i = F i (X ! i)"
proof (induction n)
  case 0
  then show ?case by simp
next
  case (Suc n)
  show ?case
  proof (cases "i = n")
    case True
    with Suc.prems show ?thesis
      by (simp add: fold_upd_length fold_upd_above)
  next
    case False
    with Suc.prems have "i < n" by simp
    with Suc show ?thesis by simp
  qed
qed

lemma SigmaPointPrediction_nth:
  "i < n_sig_m s \<Longrightarrow>
   SigmaPointPrediction s Xsig_aug delta_t ! i = SigmaPointPrediction_col delta_t (Xsig_aug ! i)"
  unfolding SigmaPointPrediction_def
  using fold_upd_nth [of "n_sig_m s" "Zero_mat (n_x_m s) (n_sig_m s)" i
      "\<lambda>i c. SigmaPointPrediction_col delta_t (Xsig_aug ! i)"]
  by (simp add: Zero_mat_def)

lemma SigmaPointPrediction_length:
  "length (SigmaPointPrediction s Xsig_aug delta_t) = n_sig_m s"
  by (simp add: SigmaPointPrediction_def fold_upd_length Zero_mat_def)

lemma SigmaPointPrediction_map:
  "length Xsig_aug = n_sig_m s \<Longrightarrow>
   SigmaPointPrediction s Xsig_aug delta_t = map (SigmaPointPrediction_col delta_t) Xsig_aug"
  by (rule nth_equalityI) (simp_all add: SigmaPointPrediction_nth SigmaPointPrediction_length)

lemma Zsig_radar_nth:
  assumes "n_z_radar_m s = 3" "i < n_sig_m s"
  shows "Zsig_radar s ! i =
     (case Zsig_radar_col (Xsig_pred_m s ! i) of (r, phi, r_dot) \<Rightarrow> [r, phi, r_dot])"
proof -
  let ?F = "\<lambda>i (c::vec). (case Zsig_radar_col (Xsig_pred_m s ! i) of
               (r, phi, r_dot) \<Rightarrow> ((c[0 := r])[1 := phi])[2 := r_dot])"
  have "(\<lambda>i Zsig. (let (r, phi, r_dot) = Zsig_radar_col (Xsig_pred_m s ! i)
            in set_coeff (set_coeff (set_coeff Zsig 0 i r) 1 i phi) 2 i r_dot))
        = (\<lambda>i X. X[i := ?F i (X ! i)])"
  proof (intro ext)
    fix i and X :: mat
    show "(let (r, phi, r_dot) = Zsig_radar_col (Xsig_pred_m s ! i)
            in set_coeff (set_coeff (set_coeff X 0 i r) 1 i phi) 2 i r_dot)
          = X[i := ?F i (X ! i)]"
      by (cases "i < length X")
         (simp_all add: set_coeff_def list_update_beyond not_less split: prod.splits)
  qed
  then have eq: "Zsig_radar s = fold (\<lambda>i X. X[i := ?F i (X ! i)]) [0..<n_sig_m s]
              (Zero_mat (n_z_radar_m s) (n_sig_m s))"
    by (simp add: Zsig_radar_def)
  show ?thesis
    unfolding eq using assms
    by (subst fold_upd_nth) (auto simp add: Zero_mat_def numeral_eq_Suc split: prod.splits)
qed

lemma sigma_fold:
  fixes f g :: "nat \<Rightarrow> 'a"
  assumes "k \<le> n" "2 * n + 1 \<le> length X"
  shows "length (fold (\<lambda>i X. (X[i + 1 := f i])[i + 1 + n := g i]) [0..<k] X) = length X \<and>
         fold (\<lambda>i X. (X[i + 1 := f i])[i + 1 + n := g i]) [0..<k] X ! 0 = X ! 0 \<and>
         (\<forall>i<k. fold (\<lambda>i X. (X[i + 1 := f i])[i + 1 + n := g i]) [0..<k] X ! (i + 1) = f i \<and>
                fold (\<lambda>i X. (X[i + 1 := f i])[i + 1 + n := g i]) [0..<k] X ! (i + 1 + n) = g i)"
  using assms
proof (induction k)
  case 0
  then show ?case by simp
next
  case (Suc k)
  then have IH:
    "length (fold (\<lambda>i X. (X[i + 1 := f i])[i + 1 + n := g i]) [0..<k] X) = length X"
    "fold (\<lambda>i X. (X[i + 1 := f i])[i + 1 + n := g i]) [0..<k] X ! 0 = X ! 0"
    "\<And>i. i < k \<Longrightarrow>
       fold (\<lambda>i X. (X[i + 1 := f i])[i + 1 + n := g i]) [0..<k] X ! (i + 1) = f i"
    "\<And>i. i < k \<Longrightarrow>
       fold (\<lambda>i X. (X[i + 1 := f i])[i + 1 + n := g i]) [0..<k] X ! (i + 1 + n) = g i"
    by auto
  show ?case
    using Suc.prems IH by (auto simp add: nth_list_update less_Suc_eq)
qed

section \<open>Small evaluations\<close>

lemma upt5: "[0..<5] = [0, 1, 2, 3, 4 :: nat]"
  by code_simp

lemma Identity_5:
  "Identity 5 5 = [[1,0,0,0,0], [0,1,0,0,0], [0,0,1,0,0], [0,0,0,1,0], [0,0,0,0,1]]"
  by (simp add: Identity_def upt5)

lemma epsilon_pos: "0 < epsilon"
  by (simp add: epsilon_def)

lemma set_weights_7:
  assumes "n_aug_m s = 7" "n_sig_m s = 2 * 7 + 1" "lambda_m s = 3 - 7"
  shows "set_weights s = (- 4 / 3) # replicate 14 (1 / 6)"
  using assms by (simp add: set_weights_def numeral_eq_Suc)

lemma weights_Prediction: "weights_m (Prediction E s delta_t) = set_weights s"
  by (simp add: Prediction_def PredictMeanAndCovariance_def Let_def set_weights_def)

section \<open>The covariance loop, entry by entry\<close>

lemma fold_mat_add_outer:
  assumes "\<And>i. i < n \<Longrightarrow> length (u i) = r \<and> length (v i) = c"
  shows "length (fold (\<lambda>i P. mat_add P (outer (u i) (v i))) [0..<n] (Zero_mat r c)) = c \<and>
         (\<forall>b<c. length (fold (\<lambda>i P. mat_add P (outer (u i) (v i))) [0..<n] (Zero_mat r c) ! b) = r \<and>
            (\<forall>a<r. fold (\<lambda>i P. mat_add P (outer (u i) (v i))) [0..<n] (Zero_mat r c) ! b ! a
                     = (\<Sum>i<n. u i ! a * v i ! b)))"
  using assms
proof (induction n)
  case 0
  then show ?case by (simp add: Zero_mat_def)
next
  case (Suc n)
  let ?P = "fold (\<lambda>i P. mat_add P (outer (u i) (v i))) [0..<n] (Zero_mat r c)"
  have IH: "length ?P = c" "\<And>b. b < c \<Longrightarrow> length (?P ! b) = r"
       "\<And>a b. b < c \<Longrightarrow> a < r \<Longrightarrow> ?P ! b ! a = (\<Sum>i<n. u i ! a * v i ! b)"
    using Suc by auto
  have un: "length (u n) = r" "length (v n) = c"
    using Suc.prems by auto
  have step: "fold (\<lambda>i P. mat_add P (outer (u i) (v i))) [0..<Suc n] (Zero_mat r c)
        = mat_add ?P (outer (u n) (v n))"
    by simp
  show ?case
    unfolding step
    using IH un
    by (auto simp add: mat_add_def outer_def vec_add_def smult_def mult.commute)
qed

lemma SigmaPointPrediction_col_2:
  "SigmaPointPrediction_col delta_t c ! 2 = c ! 2 + c ! 5 * delta_t"
  by (simp add: SigmaPointPrediction_col_def Let_def split_def)

lemma SigmaPointPrediction_col_length:
  "length (SigmaPointPrediction_col delta_t c) = 5"
  by (simp add: SigmaPointPrediction_col_def Let_def split_def)

lemma set_weights_Xsig_pred: "set_weights (s\<lparr>Xsig_pred_m := X\<rparr>) = set_weights s"
  by (simp add: set_weights_def)

lemma Prediction_x:
  "x_m (Prediction E s dt) = vec_add (Zero_vec (n_x_m s))
     (mat_vec (SigmaPointPrediction s (AugmentedSigmaPoints E s) dt) (set_weights s))"
  by (simp add: Prediction_def PredictMeanAndCovariance_def Let_def set_weights_Xsig_pred)

lemma Prediction_P:
  "P_m (Prediction E s dt) =
     fold (\<lambda>i P. mat_add P
        (outer (smult (set_weights s ! i)
           ((vec_sub (SigmaPointPrediction s (AugmentedSigmaPoints E s) dt ! i) (x_m (Prediction E s dt)))
             [3 := NormalizeAngle E (vec_sub (SigmaPointPrediction s (AugmentedSigmaPoints E s) dt ! i) (x_m (Prediction E s dt)) ! 3)]))
           ((vec_sub (SigmaPointPrediction s (AugmentedSigmaPoints E s) dt ! i) (x_m (Prediction E s dt)))
             [3 := NormalizeAngle E (vec_sub (SigmaPointPrediction s (AugmentedSigmaPoints E s) dt ! i) (x_m (Prediction E s dt)) ! 3)])))
        [0..<n_sig_m s] (Zero_mat (n_x_m s) (n_x_m s))"
  by (simp add: Prediction_def PredictMeanAndCovariance_def Let_def set_weights_Xsig_pred)

section \<open>Evaluation on the constructed filter\<close>

lemma upt7: "[0..<7] = [0,1,2,3,4,5,6::nat]"
  by code_simp

lemma upt15: "[0..<15] = [0,1,2,3,4,5,6,7,8,9,10,11,12,13,14::nat]"
  by code_simp

lemma rep7: "replicate 7 x = [x,x,x,x,x,x,x]"
  by (simp add: numeral_eq_Suc)

lemma rep15: "replicate 15 x = [x,x,x,x,x,x,x,x,x,x,x,x,x,x,x]"
  by (simp add: numeral_eq_Suc)

lemma rep14: "replicate 14 x = [x,x,x,x,x,x,x,x,x,x,x,x,x,x]"
  by (simp add: numeral_eq_Suc)

lemma upts: "[0..<0] = ([]::nat list)" "[0..<1] = [0::nat]" "[0..<2] = [0,1::nat]" "[0..<3] = [0,1,2::nat]"
  "[0..<4] = [0,1,2,3::nat]" "[0..<6] = [0,1,2,3,4,5::nat]"
  "[1..<7] = [1,2,3,4,5,6::nat]" "[2..<7] = [2,3,4,5,6::nat]" "[3..<7] = [3,4,5,6::nat]"
  "[4..<7] = [4,5,6::nat]" "[5..<7] = [5,6::nat]" "[6..<7] = [6::nat]" "[7..<7] = ([]::nat list)"
  by code_simp+

lemma sqrt_sixteenth: "sqrt (1/16) = 1/4"
proof -
  have "sqrt (1/16) = sqrt ((1/4)\<^sup>2)" by (simp add: power2_eq_square)
  also have "\<dots> = 1/4" by (simp del: power_divide)
  finally show ?thesis .
qed

lemma sqrt_pi_fifth: "sqrt (pi*pi/25) = pi/5"
proof -
  have "sqrt (pi*pi/25) = sqrt ((pi/5)\<^sup>2)" by (simp add: power2_eq_square)
  also have "\<dots> = pi/5" by (simp del: power_divide)
  finally show ?thesis .
qed

lemma P_aug_identity:
  assumes "n_aug_m s = 7" "P_m s = Identity 5 5" "std_a_m s = 0.25" "std_yawdd_m s = 20.0 / 100.0 * pi"
  shows "P_aug s =
  [[1,0,0,0,0,0,0],[0,1,0,0,0,0,0],[0,0,1,0,0,0,0],[0,0,0,1,0,0,0],[0,0,0,0,1,0,0],
   [0,0,0,0,0,1/16,0],[0,0,0,0,0,0,pi*pi/25]]"
  by (simp add: P_aug_def assms Zero_mat_def Identity_5 set_topLeftCorner_def set_coeff_def upt7 rep7)

lemma llt_identity: "eigen_llt
  [[1,0,0,0,0,0,0],[0,1,0,0,0,0,0],[0,0,1,0,0,0,0],[0,0,0,1,0,0,0],[0,0,0,0,1,0,0],
   [0,0,0,0,0,1/16,0],[0,0,0,0,0,0,pi*pi/25]] = (Success,
  [[1,0,0,0,0,0,0],[0,1,0,0,0,0,0],[0,0,1,0,0,0,0],[0,0,0,1,0,0,0],[0,0,0,0,1,0,0],
   [0,0,0,0,0,1/4,0],[0,0,0,0,0,0,pi/5]])"
  by (simp add: eigen_llt_def rows_def upt7 upts coeff_def set_coeff_def lower_triangle_def Let_def sqrt_sixteenth sqrt_pi_fifth mult_le_0_iff not_le)


lemma AugmentedSigmaPoints_identity:
  assumes "n_aug_m s = 7" "n_sig_m s = 15" "lambda_m s = -4" "P_m s = Identity 5 5" "std_a_m s = 0.25" "std_yawdd_m s = 20.0 / 100.0 * pi"
    "x_m s = [a,b,c,d,e]"
  shows "AugmentedSigmaPoints E_ref s =
   [[a,b,c,d,e,0,0],
    [a + sqrt 3,b,c,d,e,0,0], [a,b + sqrt 3,c,d,e,0,0], [a,b,c + sqrt 3,d,e,0,0], [a,b,c,d + sqrt 3,e,0,0],
    [a,b,c,d,e + sqrt 3,0,0], [a,b,c,d,e,sqrt 3 / 4,0], [a,b,c,d,e,0,sqrt 3 * pi / 5],
    [a - sqrt 3,b,c,d,e,0,0], [a,b - sqrt 3,c,d,e,0,0], [a,b,c - sqrt 3,d,e,0,0], [a,b,c,d - sqrt 3,e,0,0],
    [a,b,c,d,e - sqrt 3,0,0], [a,b,c,d,e,- (sqrt 3 / 4),0], [a,b,c,d,e,0,- (sqrt 3 * pi / 5)]]"
  by (simp add: assms AugmentedSigmaPoints_def P_aug_identity E_ref_def llt_identity matrixL_def x_aug_def
      Zero_mat_def Zero_vec_def set_head_def rep7 rep15 upt7 vec_add_def vec_sub_def smult_def)

lemma sum_lessThan_list: "(\<Sum>i<n. f i) = sum_list (map f [0..<n])"
  by (simp add: interv_sum_list_conv_sum_set_nat atLeast0LessThan)

text \<open>A filter as constructed with the laser switched off, bootstrapped by the radar reading
  (5, 0, 2) at time 0, then given a laser reading one second later: the speed variance
  \<open>P(2,2)\<close> has grown from 1 to 17/16.\<close>

lemma radar_then_laser_off:
  "P_m (ProcessMeasurement E_ref laser_off_ready
          \<lparr> timestamp_m = 1000000, sensor_type_m = LASER, raw_measurements_m = [7, 0] \<rparr>) ! 2 ! 2
     = 17 / 16"
proof -
  define s1 where "s1 = UKF_init\<lparr>use_laser_m := False, x_m := [5, 0, 2, 0, 0],
      is_initialized_m := True, time_us_m := 1000000\<rparr>"
  have PM: "ProcessMeasurement E_ref laser_off_ready
          \<lparr> timestamp_m = 1000000, sensor_type_m = LASER, raw_measurements_m = [7, 0] \<rparr>
        = Prediction E_ref s1 1"
    by (simp add: laser_off_ready_def laser_off_def ProcessMeasurement_def Let_def UKF_init_def
          s1_def delta_t_of_def Prediction_def split_def)
  have c: "n_aug_m s1 = 7" "n_sig_m s1 = 15" "lambda_m s1 = -4" "P_m s1 = Identity 5 5"
      "std_a_m s1 = 0.25" "std_yawdd_m s1 = 20.0 / 100.0 * pi" "x_m s1 = [5, 0, 2, 0, 0]" "n_x_m s1 = 5"
    by (simp_all add: s1_def UKF_init_def)
  define Xa where "Xa = AugmentedSigmaPoints E_ref s1"
  define Xp where "Xp = SigmaPointPrediction s1 Xa 1"
  define x where "x = x_m (Prediction E_ref s1 1)"
  define D where "D = (\<lambda>i. (vec_sub (Xp ! i) x)[3 := NormalizeAngle E_ref (vec_sub (Xp ! i) x ! 3)])"
  note Xa_eq = AugmentedSigmaPoints_identity [OF c(1-7), folded Xa_def]
  have w: "set_weights s1 = [- 4 / 3, 1/6, 1/6, 1/6, 1/6, 1/6, 1/6, 1/6, 1/6, 1/6, 1/6, 1/6, 1/6, 1/6, 1/6]"
    by (simp add: set_weights_7 c rep14)
  have Xp_eq: "Xp = map (SigmaPointPrediction_col 1) Xa"
    unfolding Xp_def by (rule SigmaPointPrediction_map) (simp add: Xa_eq c)
  have Xa_len: "length Xa = 15"
    by (simp add: Xa_eq)
  have Xp_len: "length Xp = 15"
    by (simp add: Xp_eq Xa_eq)
  have Xp_col: "length (Xp ! i) = 5" if "i < 15" for i
    using that Xa_len by (simp add: Xp_eq SigmaPointPrediction_col_length)
  have rows: "rows Xp = 5"
    by (simp add: Xp_eq Xa_eq rows_def SigmaPointPrediction_col_length)
  have vrow: "map (\<lambda>c. c ! 2) Xp = [2, 2, 2, 2 + sqrt 3, 2, 2, 2 + sqrt 3 / 4, 2,
       2, 2, 2 - sqrt 3, 2, 2, 2 - sqrt 3 / 4, 2]"
    by (simp add: Xp_eq Xa_eq SigmaPointPrediction_col_2)
  have x_eq: "x = vec_add (Zero_vec 5) (mat_vec Xp (set_weights s1))"
    by (simp add: x_def Prediction_x c Xp_def Xa_def)
  have xl: "length x = 5"
    by (simp add: x_eq Zero_vec_def vec_add_def mat_vec_def rows)
  have x2: "x ! 2 = 2"
    by (simp add: x_eq Zero_vec_def vec_add_def mat_vec_def rows upt5 row_def vrow dot_def w
          add_divide_distrib diff_divide_distrib)
  have D2: "D i ! 2 = map (\<lambda>c. c ! 2) Xp ! i - 2" if "i < 15" for i
    using that by (simp add: D_def vec_sub_def Xp_col xl x2 Xp_len)
  have Dl: "length (D i) = 5" if "i < 15" for i
    using that by (simp add: D_def vec_sub_def Xp_col xl)
  have P_eq: "P_m (Prediction E_ref s1 1) =
      fold (\<lambda>i P. mat_add P (outer (smult (set_weights s1 ! i) (D i)) (D i))) [0..<15] (Zero_mat 5 5)"
    unfolding Prediction_P by (simp add: D_def x_def Xp_def Xa_def c)
  have "P_m (Prediction E_ref s1 1) ! 2 ! 2 = (\<Sum>i<15. smult (set_weights s1 ! i) (D i) ! 2 * D i ! 2)"
    unfolding P_eq
    using fold_mat_add_outer [of 15 "\<lambda>i. smult (set_weights s1 ! i) (D i)" 5 D 5]
    by (simp add: Dl smult_def)
  also have "\<dots> = (\<Sum>i<15. set_weights s1 ! i * (map (\<lambda>c. c ! 2) Xp ! i - 2) * (map (\<lambda>c. c ! 2) Xp ! i - 2))"
    by (rule sum.cong) (simp_all add: smult_def Dl D2)
  also have "\<dots> = 17 / 16"
    unfolding sum_lessThan_list upt15 vrow w
    by (simp add: algebra_simps diff_divide_distrib)
  finally show ?thesis by (simp add: PM)
qed

lemma wrap_angle_0: "wrap_angle 0 = 0"
  by (simp add: wrap_angle_def ceiling_eq_iff)

lemma rep2: "replicate 2 x = [x, x]"
  by (simp add: numeral_eq_Suc)

lemma rep3: "replicate 3 x = [x, x, x]"
  by (simp add: numeral_eq_Suc)

lemma rep5: "replicate 5 x = [x, x, x, x, x]"
  by (simp add: numeral_eq_Suc)

lemma pd_diag2:
  assumes "0 < a" "0 < b"
  shows "positive_definite [[a, 0], [0, b]]"
  unfolding positive_definite_def
proof (intro conjI allI impI)
  show "square_mat (length [[a, 0], [0, b]]) [[a, 0], [0, b]]"
    by (simp add: square_mat_def)
next
  fix y :: vec
  assume "length y = length [[a, 0], [0, b]] \<and> y \<noteq> Zero_vec (length [[a, 0], [0, b]])"
  then obtain p q where y: "y = [p, q]" and nz: "p \<noteq> 0 \<or> q \<noteq> 0"
    by (cases y; cases "tl y") (auto simp add: Zero_vec_def numeral_eq_Suc)
  have "0 < a * (p * p) + b * (q * q)"
    using assms nz
    by (metis add_pos_nonneg add_nonneg_pos mult_nonneg_nonneg mult_pos_pos less_imp_le
          zero_le_square not_real_square_gt_zero)
  then show "0 < dot (vec_mat y [[a, 0], [0, b]]) y"
    by (simp add: y dot_def vec_mat_def algebra_simps)
qed

lemma pd_diag3:
  assumes "0 < a" "0 < b" "0 < c"
  shows "positive_definite [[a, 0, 0], [0, b, 0], [0, 0, c]]"
  unfolding positive_definite_def
proof (intro conjI allI impI)
  show "square_mat (length [[a, 0, 0], [0, b, 0], [0, 0, c]]) [[a, 0, 0], [0, b, 0], [0, 0, c]]"
    by (simp add: square_mat_def)
next
  fix y :: vec
  assume "length y = length [[a, 0, 0], [0, b, 0], [0, 0, c]] \<and> y \<noteq> Zero_vec (length [[a, 0, 0], [0, b, 0], [0, 0, c]])"
  then obtain p q r where y: "y = [p, q, r]" and nz: "p \<noteq> 0 \<or> q \<noteq> 0 \<or> r \<noteq> 0"
    by (cases y; cases "tl y"; cases "tl (tl y)") (auto simp add: Zero_vec_def numeral_eq_Suc)
  have sq: "0 \<le> a * (p * p)" "0 \<le> b * (q * q)" "0 \<le> c * (r * r)"
    using assms by simp_all
  have "0 < a * (p * p) \<or> 0 < b * (q * q) \<or> 0 < c * (r * r)"
    using assms nz by (auto simp add: zero_less_mult_iff)
  then have "0 < a * (p * p) + b * (q * q) + c * (r * r)"
    using sq by linarith
  then show "0 < dot (vec_mat y [[a, 0, 0], [0, b, 0], [0, 0, c]]) y"
    by (simp add: y dot_def vec_mat_def algebra_simps)
qed

lemma S_lidar_example: "S_lidar E_ref nis_example = [[9 / 400, 0], [0, 9 / 400]]"
  by (simp add: S_lidar_def S_of_def z_pred_of_def Zsig_lidar_def block_def nis_example_def UKF_init_def
     rep15 rep14 rep2 rep3 upt15 z_diff_of_def Zero_mat_def Zero_vec_def vec_add_def vec_sub_def smult_def mat_add_def outer_def Let_def)

lemma Zsig_radar_example: "Zsig_radar nis_example = replicate 15 [1, 0, 0]"
  by (simp add: Zsig_radar_def Zsig_radar_col_def radar_guard_def epsilon_def atan2_def nis_example_def UKF_init_def
     rep15 rep14 rep2 rep3 upt15 set_coeff_def Zero_mat_def Let_def)

lemma S_radar_example: "S_radar E_ref nis_example = [[9 / 100, 0, 0], [0, 9 / 10000, 0], [0, 0, 9 / 100]]"
  unfolding S_radar_def Zsig_radar_example
  by (simp add: S_of_def z_pred_of_def nis_example_def UKF_init_def E_ref_def wrap_angle_0
     rep15 rep14 rep2 rep3 upt15 z_diff_of_def Zero_mat_def Zero_vec_def vec_add_def vec_sub_def smult_def mat_add_def outer_def Let_def)

lemma inverse_R_lidar: "inverse_of (inverse_cofactor [[9 / 400, 0], [0, 9 / 400]]) [[9 / 400, 0], [0, 9 / 400]]"
  by (simp add: inverse_of_def square_mat_def mat_mul_def mat_vec_def rows_def row_def dot_def Identity_def Let_def upts)

lemma inverse_R_radar: "inverse_of (inverse_cofactor [[9 / 100, 0, 0], [0, 9 / 10000, 0], [0, 0, 9 / 100]]) [[9 / 100, 0, 0], [0, 9 / 10000, 0], [0, 0, 9 / 100]]"
  by (simp add: inverse_of_def square_mat_def mat_mul_def mat_vec_def rows_def row_def dot_def Identity_def Let_def upts)

lemma not_pd_P_aug: "P_aug not_pd_filter =
  [[- 1,0,0,0,0,0,0],[0,1,0,0,0,0,0],[0,0,1,0,0,0,0],[0,0,0,1,0,0,0],[0,0,0,0,1,0,0],
   [0,0,0,0,0,1/16,0],[0,0,0,0,0,0,pi*pi/25]]"
  by (simp add: P_aug_def not_pd_filter_def UKF_init_def Zero_mat_def set_topLeftCorner_def set_coeff_def upt7 rep7)

lemma not_pd_llt: "eigen_llt
  [[- 1,0,0,0,0,0,0],[0,1,0,0,0,0,0],[0,0,1,0,0,0,0],[0,0,0,1,0,0,0],[0,0,0,0,1,0,0],
   [0,0,0,0,0,1/16,0],[0,0,0,0,0,0,pi*pi/25]] = (NumericalIssue,
  [[- 1,0,0,0,0,0,0],[0,1,0,0,0,0,0],[0,0,1,0,0,0,0],[0,0,0,1,0,0,0],[0,0,0,0,1,0,0],
   [0,0,0,0,0,1/16,0],[0,0,0,0,0,0,pi*pi/25]])"
  by (simp add: eigen_llt_def rows_def upt7 upts coeff_def lower_triangle_def Let_def)

lemma not_pd_filter_not_pd: "\<not> positive_definite (P_aug not_pd_filter)"
proof
  assume "positive_definite (P_aug not_pd_filter)"
  then have "0 < dot (vec_mat [1, 0, 0, 0, 0, 0, 0] (P_aug not_pd_filter)) [1, 0, 0, 0, 0, 0, 0]"
    unfolding positive_definite_def not_pd_P_aug by (simp add: Zero_vec_def)
  then show False
    by (simp add: not_pd_P_aug dot_def vec_mat_def)
qed





section \<open>The quadratic form of an inverse\<close>

lemma dot_sum: "dot u v = (\<Sum>i<min (length u) (length v). u ! i * v ! i)"
proof -
  have "dot u v = (\<Sum>i = 0..<length (map2 (*) u v). map2 (*) u v ! i)"
    unfolding dot_def by (rule sum_list_sum_nth)
  also have "\<dots> = (\<Sum>i<min (length u) (length v). u ! i * v ! i)"
    by (rule sum.cong) (auto simp add: atLeast0LessThan)
  finally show ?thesis .
qed

lemma square_matD:
  assumes "square_mat n A"
  shows "length A = n" "\<And>j. j < n \<Longrightarrow> length (A ! j) = n"
  using assms by (simp_all add: square_mat_def list_all_length)

lemma rows_square: "square_mat n A \<Longrightarrow> rows A = n"
  by (cases A) (auto simp add: square_mat_def rows_def)

lemma nis_quadratic:
  assumes pd: "positive_definite S" and inv: "inverse_of B S"
  shows "0 \<le> dot (vec_mat z B) z"
proof -
  define n where "n = length S"
  define zz where "zz = (\<lambda>i. if i < length z then z ! i else 0)"
  define y where "y = (\<lambda>k. \<Sum>j<n. B ! j ! k * zz j)"
  have S: "square_mat n S" and B: "square_mat n B"
    and SBI: "mat_mul S B = Identity n n"
    and pos: "\<And>v. length v = n \<Longrightarrow> v \<noteq> Zero_vec n \<Longrightarrow> 0 < dot (vec_mat v S) v"
    using pd inv by (auto simp add: positive_definite_def inverse_of_def n_def)
  note Sd = square_matD [OF S] and Bd = square_matD [OF B]
  have SB: "(\<Sum>k<n. S ! k ! i * B ! j ! k) = (if i = j then 1 else 0)" if "i < n" "j < n" for i j
  proof -
    have "mat_mul S B ! j ! i = dot (row S i) (B ! j)"
      using that by (simp add: mat_mul_def mat_vec_def Bd rows_square [OF S])
    also have "\<dots> = (\<Sum>k<n. S ! k ! i * B ! j ! k)"
      using that by (simp add: dot_sum row_def Sd Bd)
    finally show ?thesis
      using that by (simp add: SBI Identity_def)
  qed
  have Q: "dot (vec_mat z B) z = (\<Sum>j<n. (\<Sum>i<n. zz i * B ! j ! i) * zz j)"
  proof -
    have inner: "dot z (B ! j) = (\<Sum>i<n. zz i * B ! j ! i)" if "j < n" for j
    proof -
      have "dot z (B ! j) = (\<Sum>i<min (length z) n. z ! i * B ! j ! i)"
        using that by (simp add: dot_sum Bd)
      also have "\<dots> = (\<Sum>i<n. zz i * B ! j ! i)"
        by (rule sum.mono_neutral_cong_left) (auto simp add: zz_def)
      finally show ?thesis .
    qed
    have "dot (vec_mat z B) z = (\<Sum>j<min n (length z). dot z (B ! j) * z ! j)"
      by (simp add: dot_sum vec_mat_def Bd)
    also have "\<dots> = (\<Sum>j<n. dot z (B ! j) * zz j)"
      by (rule sum.mono_neutral_cong_left) (auto simp add: zz_def)
    also have "\<dots> = (\<Sum>j<n. (\<Sum>i<n. zz i * B ! j ! i) * zz j)"
      by (rule sum.cong) (simp_all add: inner)
    finally show ?thesis .
  qed
  have Qy: "dot (vec_mat z B) z = (\<Sum>i<n. zz i * y i)"
  proof -
    have "(\<Sum>j<n. (\<Sum>i<n. zz i * B ! j ! i) * zz j) = (\<Sum>j<n. \<Sum>i<n. zz i * (B ! j ! i * zz j))"
      by (simp add: sum_distrib_right mult.assoc)
    also have "\<dots> = (\<Sum>i<n. \<Sum>j<n. zz i * (B ! j ! i * zz j))"
      by (rule sum.swap)
    also have "\<dots> = (\<Sum>i<n. zz i * y i)"
      by (simp add: y_def sum_distrib_left)
    finally show ?thesis using Q by simp
  qed
  have Sy: "(\<Sum>k<n. S ! k ! i * y k) = zz i" if "i < n" for i
  proof -
    have "(\<Sum>k<n. S ! k ! i * y k) = (\<Sum>k<n. \<Sum>j<n. (S ! k ! i * B ! j ! k) * zz j)"
      by (simp add: y_def sum_distrib_left mult.assoc)
    also have "\<dots> = (\<Sum>j<n. \<Sum>k<n. (S ! k ! i * B ! j ! k) * zz j)"
      by (rule sum.swap)
    also have "\<dots> = (\<Sum>j<n. (\<Sum>k<n. S ! k ! i * B ! j ! k) * zz j)"
      by (simp add: sum_distrib_right)
    also have "\<dots> = (\<Sum>j<n. (if i = j then 1 else 0) * zz j)"
      by (rule sum.cong) (simp_all add: SB that)
    also have "\<dots> = zz i"
      using that by (simp add: if_distrib [of "\<lambda>a. a * _"] sum.delta' cong: if_cong)
    finally show ?thesis .
  qed
  define yl where "yl = map y [0..<n]"
  have yl: "length yl = n" "\<And>i. i < n \<Longrightarrow> yl ! i = y i"
    by (simp_all add: yl_def)
  have form: "dot (vec_mat yl S) yl = (\<Sum>i<n. zz i * y i)"
  proof -
    have "dot (vec_mat yl S) yl = (\<Sum>j<n. dot yl (S ! j) * y j)"
      by (simp add: dot_sum vec_mat_def Sd yl)
    also have "\<dots> = (\<Sum>j<n. (\<Sum>i<n. y i * S ! j ! i) * y j)"
      by (rule sum.cong) (simp_all add: dot_sum Sd yl)
    also have "\<dots> = (\<Sum>j<n. \<Sum>i<n. y i * (S ! j ! i * y j))"
      by (simp add: sum_distrib_right mult.assoc)
    also have "\<dots> = (\<Sum>i<n. \<Sum>j<n. y i * (S ! j ! i * y j))"
      by (rule sum.swap)
    also have "\<dots> = (\<Sum>i<n. y i * (\<Sum>j<n. S ! j ! i * y j))"
      by (simp add: sum_distrib_left)
    also have "\<dots> = (\<Sum>i<n. y i * zz i)"
      by (rule sum.cong) (simp_all add: Sy)
    finally show ?thesis by (simp add: mult.commute)
  qed
  show ?thesis
  proof (cases "yl = Zero_vec n")
    case True
    then have "y i = 0" if "i < n" for i
      using yl(2) [OF that] that by (simp add: Zero_vec_def)
    then show ?thesis by (simp add: Qy)
  next
    case False
    from pos [OF yl(1) False] show ?thesis
      by (simp add: form Qy)
  qed
qed

section \<open>The factorization of a positive-definite matrix\<close>











section \<open>Bootstrap: the first measurement of an enabled sensor\<close>

text \<open>
  C2 (amended). On the first measurement of an enabled sensor type the filter takes its
  position from the measurement (converted from polar coordinates for a radar reading),
  sets heading and heading rate to zero, sets the speed to zero for a laser reading and to
  the measured range rate for a radar reading, records the timestamp and becomes
  initialized. Every other member is left as it was: the covariance (the identity for a
  filter as constructed), the predicted sigma points, the weights and both NIS values, so
  no prediction and no update is performed. A laser reading (1.0, 0.5) given to a filter
  as constructed yields the state (1.0, 0.5, 0, 0, 0) and the identity covariance.
\<close>

theorem bootstrap_first_measurement:
  assumes "\<not> is_initialized_m s"
  shows "(use_radar_m s \<and> sensor_type_m m = RADAR \<longrightarrow>
            ProcessMeasurement E s m =
              s\<lparr> x_m := [raw_measurements_m m ! 0 * cos (raw_measurements_m m ! 1),
                         raw_measurements_m m ! 0 * sin (raw_measurements_m m ! 1),
                         raw_measurements_m m ! 2, 0, 0],
                 is_initialized_m := True,
                 time_us_m := timestamp_m m \<rparr>) \<and>
         (\<not> (use_radar_m s \<and> sensor_type_m m = RADAR) \<and>
          use_laser_m s \<and> sensor_type_m m = LASER \<longrightarrow>
            ProcessMeasurement E s m =
              s\<lparr> x_m := [raw_measurements_m m ! 0, raw_measurements_m m ! 1, 0, 0, 0],
                 is_initialized_m := True,
                 time_us_m := timestamp_m m \<rparr>) \<and>
         P_m (ProcessMeasurement E s m) = P_m s \<and>
         P_m UKF_init = [[1,0,0,0,0], [0,1,0,0,0], [0,0,1,0,0], [0,0,0,1,0], [0,0,0,0,1]] \<and>
         x_m (ProcessMeasurement E UKF_init
                \<lparr> timestamp_m = t, sensor_type_m = LASER, raw_measurements_m = [1.0, 0.5] \<rparr>)
           = [1.0, 0.5, 0, 0, 0] \<and>
         P_m (ProcessMeasurement E UKF_init
                \<lparr> timestamp_m = t, sensor_type_m = LASER, raw_measurements_m = [1.0, 0.5] \<rparr>)
           = [[1,0,0,0,0], [0,1,0,0,0], [0,0,1,0,0], [0,0,0,1,0], [0,0,0,0,1]]"
proof -
  have "P_m UKF_init = [[1,0,0,0,0], [0,1,0,0,0], [0,0,1,0,0], [0,0,0,1,0], [0,0,0,0,1]]"
    by (simp add: UKF_init_def Identity_5)
  moreover have "\<not> is_initialized_m UKF_init" "use_laser_m UKF_init" "use_radar_m UKF_init"
    by (simp_all add: UKF_init_def)
  ultimately show ?thesis
    using assms by (simp add: ProcessMeasurement_def Let_def)
qed

theorem bootstrap_first_measurement_witness:
  "\<not> is_initialized_m UKF_init \<and> use_radar_m UKF_init \<and> use_laser_m UKF_init \<and>
   ProcessMeasurement E_ref UKF_init
     \<lparr> timestamp_m = 7, sensor_type_m = RADAR, raw_measurements_m = [2, 0, 1] \<rparr>
     = UKF_init\<lparr> x_m := [2, 0, 1, 0, 0], is_initialized_m := True, time_us_m := 7 \<rparr> \<and>
   ProcessMeasurement E_ref UKF_init
     \<lparr> timestamp_m = 9, sensor_type_m = LASER, raw_measurements_m = [3, 4] \<rparr>
     = UKF_init\<lparr> x_m := [3, 4, 0, 0, 0], is_initialized_m := True, time_us_m := 9 \<rparr>"
proof -
  have h: "\<not> is_initialized_m UKF_init" "use_radar_m UKF_init" "use_laser_m UKF_init"
    by (simp_all add: UKF_init_def)
  show ?thesis
    using h
      bootstrap_first_measurement [OF h(1),
        of "\<lparr> timestamp_m = 7, sensor_type_m = RADAR, raw_measurements_m = [2, 0, 1] \<rparr>" E_ref]
      bootstrap_first_measurement [OF h(1),
        of "\<lparr> timestamp_m = 9, sensor_type_m = LASER, raw_measurements_m = [3, 4] \<rparr>" E_ref]
    by simp
qed

text \<open>The claim as written has the speed set to zero for either sensor. For a radar
  reading with range rate 3 the speed is 3.\<close>

theorem bootstrap_radar_speed_counterexample:
  "x_m (ProcessMeasurement E_ref UKF_init
          \<lparr> timestamp_m = 0, sensor_type_m = RADAR, raw_measurements_m = [1, 0, 3] \<rparr>) ! 2 \<noteq> 0"
  by (simp add: ProcessMeasurement_def UKF_init_def)

section \<open>Bootstrap from a radar measurement\<close>

text \<open>
  C3. A filter as constructed, given a radar measurement with range 5, bearing 0 and
  range rate 2 as its first measurement, has the state vector (5, 0, 2, 0, 0): the speed
  is the measured range rate.
\<close>

theorem radar_bootstrap_scenario:
  "x_m (ProcessMeasurement E UKF_init
          \<lparr> timestamp_m = t, sensor_type_m = RADAR, raw_measurements_m = [5, 0, 2] \<rparr>)
     = [5, 0, 2, 0, 0]"
  by (simp add: ProcessMeasurement_def UKF_init_def)

section \<open>The motion model\<close>

text \<open>
  C5. For an augmented sigma point whose heading rate is at most 0.001 in absolute value the
  predicted position is the straight-line one, \<open>p_x + v \<Delta>t cos yaw\<close> and
  \<open>p_y + v \<Delta>t sin yaw\<close>; for a larger heading rate it is the arc displacement divided by
  the heading rate. In both cases the acceleration noise term is added afterwards. Every
  column of the predicted sigma points is computed so. The sigma point (0, 0, 1, 0, 0) with
  zero noise and heading rate 0, over one second, has the predicted position (1, 0).
\<close>

theorem ctrv_motion_model:
  "(\<bar>yawd\<bar> \<le> 0.001 \<longrightarrow>
      SigmaPointPrediction_col delta_t [p_x, p_y, v, yaw, yawd, nu_a, nu_yawdd] ! 0
        = p_x + v * delta_t * cos yaw + 0.5 * nu_a * delta_t * delta_t * cos yaw \<and>
      SigmaPointPrediction_col delta_t [p_x, p_y, v, yaw, yawd, nu_a, nu_yawdd] ! 1
        = p_y + v * delta_t * sin yaw + 0.5 * nu_a * delta_t * delta_t * sin yaw) \<and>
   (\<bar>yawd\<bar> > 0.001 \<longrightarrow>
      SigmaPointPrediction_col delta_t [p_x, p_y, v, yaw, yawd, nu_a, nu_yawdd] ! 0
        = p_x + v / yawd * (sin (yaw + yawd * delta_t) - sin yaw)
            + 0.5 * nu_a * delta_t * delta_t * cos yaw \<and>
      SigmaPointPrediction_col delta_t [p_x, p_y, v, yaw, yawd, nu_a, nu_yawdd] ! 1
        = p_y + v / yawd * (cos yaw - cos (yaw + yawd * delta_t))
            + 0.5 * nu_a * delta_t * delta_t * sin yaw) \<and>
   (i < n_sig_m s \<longrightarrow>
      SigmaPointPrediction s Xsig_aug delta_t ! i
        = SigmaPointPrediction_col delta_t (Xsig_aug ! i)) \<and>
   take 2 (SigmaPointPrediction_col 1 [0, 0, 1, 0, 0, 0, 0]) = [1, 0]"
  by (simp add: SigmaPointPrediction_col_def SigmaPointPrediction_nth Let_def split_def)

theorem ctrv_motion_model_witness:
  "\<bar>0 :: real\<bar> \<le> 0.001 \<and>
   SigmaPointPrediction_col 2 [1, 1, 3, 0, 0, 0, 0] ! 0 = 7 \<and>
   SigmaPointPrediction_col 2 [1, 1, 3, 0, 0, 0, 0] ! 1 = 1 \<and>
   \<bar>1 :: real\<bar> > 0.001 \<and>
   SigmaPointPrediction_col 1 [0, 0, 1, 0, 1, 0, 0] ! 0 = sin 1 \<and>
   SigmaPointPrediction_col 1 [0, 0, 1, 0, 1, 0, 0] ! 1 = 1 - cos 1 \<and>
   (0 :: nat) < n_sig_m UKF_init \<and>
   SigmaPointPrediction UKF_init [[1, 1, 3, 0, 0, 0, 0]] 2 ! 0 = [7, 1, 3, 0, 0]"
  using ctrv_motion_model [of 0 2 1 1 3 0 0 0 0 UKF_init "[[1, 1, 3, 0, 0, 0, 0]]"]
    ctrv_motion_model [of 1 1 0 0 1 0 0 0 0 UKF_init "[[1, 1, 3, 0, 0, 0, 0]]"]
  by (simp add: UKF_init_def SigmaPointPrediction_col_def split_def)

section \<open>Sigma points\<close>




section \<open>Sigma points from a covariance that is not positive definite\<close>

text \<open>
  C4 (amended). Sigma-point generation has no error path. Whatever the augmented covariance,
  positive definite or not, and whatever status the factorization reports, it returns the
  \<open>2 n_aug + 1\<close> columns built from the factor the factorization leaves: the augmented mean,
  and the mean plus and minus \<open>sqrt (\<lambda> + n_aug)\<close> times each column of that factor. The
  status is not consulted: replacing it by any other leaves the result the same.
\<close>

theorem sigma_points_any_covariance:
  "AugmentedSigmaPoints (E\<lparr> llt := \<lambda>A. (st A, matrixL (llt E A)) \<rparr>) s = AugmentedSigmaPoints E s \<and>
   (n_sig_m s = 2 * n_aug_m s + 1 \<longrightarrow>
      length (AugmentedSigmaPoints E s) = n_sig_m s \<and>
      AugmentedSigmaPoints E s ! 0 = x_aug s \<and>
      (\<forall>i<n_aug_m s.
         AugmentedSigmaPoints E s ! (i + 1) =
           vec_add (x_aug s)
             (smult (sqrt (lambda_m s + real (n_aug_m s))) (matrixL (llt E (P_aug s)) ! i)) \<and>
         AugmentedSigmaPoints E s ! (i + 1 + n_aug_m s) =
           vec_sub (x_aug s)
             (smult (sqrt (lambda_m s + real (n_aug_m s))) (matrixL (llt E (P_aug s)) ! i))))"
proof -
  have a: "AugmentedSigmaPoints (E\<lparr> llt := \<lambda>A. (st A, matrixL (llt E A)) \<rparr>) s
      = AugmentedSigmaPoints E s"
    by (simp add: AugmentedSigmaPoints_def matrixL_def)
  have b: "length (AugmentedSigmaPoints E s) = n_sig_m s \<and>
      AugmentedSigmaPoints E s ! 0 = x_aug s \<and>
      (\<forall>i<n_aug_m s.
         AugmentedSigmaPoints E s ! (i + 1) =
           vec_add (x_aug s)
             (smult (sqrt (lambda_m s + real (n_aug_m s))) (matrixL (llt E (P_aug s)) ! i)) \<and>
         AugmentedSigmaPoints E s ! (i + 1 + n_aug_m s) =
           vec_sub (x_aug s)
             (smult (sqrt (lambda_m s + real (n_aug_m s))) (matrixL (llt E (P_aug s)) ! i)))"
    if n: "n_sig_m s = 2 * n_aug_m s + 1"
    using sigma_fold [of "n_aug_m s" "n_aug_m s"
        "(Zero_mat (n_aug_m s) (n_sig_m s))[0 := x_aug s]"
        "\<lambda>i. vec_add (x_aug s)
             (smult (sqrt (lambda_m s + real (n_aug_m s))) (matrixL (llt E (P_aug s)) ! i))"
        "\<lambda>i. vec_sub (x_aug s)
             (smult (sqrt (lambda_m s + real (n_aug_m s))) (matrixL (llt E (P_aug s)) ! i))"]
    by (simp add: AugmentedSigmaPoints_def Let_def Zero_mat_def n)
  show ?thesis using a b by blast
qed

theorem sigma_points_any_covariance_witness:
  "n_sig_m not_pd_filter = 2 * n_aug_m not_pd_filter + 1 \<and>
   AugmentedSigmaPoints (E_ref\<lparr> llt := \<lambda>A. (Success, matrixL (llt E_ref A)) \<rparr>) not_pd_filter
     = AugmentedSigmaPoints E_ref not_pd_filter \<and>
   length (AugmentedSigmaPoints E_ref not_pd_filter) = 15 \<and>
   AugmentedSigmaPoints E_ref not_pd_filter ! 0 = x_aug not_pd_filter"
proof -
  have h: "n_sig_m not_pd_filter = 2 * n_aug_m not_pd_filter + 1" "n_sig_m not_pd_filter = 15"
    by (simp_all add: not_pd_filter_def UKF_init_def)
  show ?thesis
    using h sigma_points_any_covariance
        [where E = E_ref and st = "\<lambda>A. Success" and s = not_pd_filter]
    by simp
qed

text \<open>The claim as written has a detectable error surface. For the covariance with \<open>-1\<close> on
  its diagonal, which is not positive definite and for which the factorization reports
  \<^verbatim>\<open>NumericalIssue\<close>, the function returns an ordinary matrix of sigma points, built from
  the unfactored covariance.\<close>

theorem not_pd_sigma_points_counterexample:
  "\<not> positive_definite (P_aug not_pd_filter) \<and>
   info (llt E_ref (P_aug not_pd_filter)) = NumericalIssue \<and>
   AugmentedSigmaPoints E_ref not_pd_filter =
     [[0, 0, 0, 0, 0, 0, 0],
      [- sqrt 3, 0, 0, 0, 0, 0, 0], [0, sqrt 3, 0, 0, 0, 0, 0], [0, 0, sqrt 3, 0, 0, 0, 0],
      [0, 0, 0, sqrt 3, 0, 0, 0], [0, 0, 0, 0, sqrt 3, 0, 0], [0, 0, 0, 0, 0, sqrt 3 / 16, 0],
      [0, 0, 0, 0, 0, 0, sqrt 3 * (pi * pi) / 25],
      [sqrt 3, 0, 0, 0, 0, 0, 0], [0, - sqrt 3, 0, 0, 0, 0, 0], [0, 0, - sqrt 3, 0, 0, 0, 0],
      [0, 0, 0, - sqrt 3, 0, 0, 0], [0, 0, 0, 0, - sqrt 3, 0, 0], [0, 0, 0, 0, 0, - (sqrt 3 / 16), 0],
      [0, 0, 0, 0, 0, 0, - (sqrt 3 * (pi * pi) / 25)]]"
proof -
  have "info (llt E_ref (P_aug not_pd_filter)) = NumericalIssue"
    by (simp add: not_pd_P_aug E_ref_def not_pd_llt info_def)
  moreover have "AugmentedSigmaPoints E_ref not_pd_filter =
     [[0, 0, 0, 0, 0, 0, 0],
      [- sqrt 3, 0, 0, 0, 0, 0, 0], [0, sqrt 3, 0, 0, 0, 0, 0], [0, 0, sqrt 3, 0, 0, 0, 0],
      [0, 0, 0, sqrt 3, 0, 0, 0], [0, 0, 0, 0, sqrt 3, 0, 0], [0, 0, 0, 0, 0, sqrt 3 / 16, 0],
      [0, 0, 0, 0, 0, 0, sqrt 3 * (pi * pi) / 25],
      [sqrt 3, 0, 0, 0, 0, 0, 0], [0, - sqrt 3, 0, 0, 0, 0, 0], [0, 0, - sqrt 3, 0, 0, 0, 0],
      [0, 0, 0, - sqrt 3, 0, 0, 0], [0, 0, 0, 0, - sqrt 3, 0, 0], [0, 0, 0, 0, 0, - (sqrt 3 / 16), 0],
      [0, 0, 0, 0, 0, 0, - (sqrt 3 * (pi * pi) / 25)]]"
  proof -
    have c: "n_aug_m not_pd_filter = 7" "n_sig_m not_pd_filter = 15" "lambda_m not_pd_filter = - 4"
      by (simp_all add: not_pd_filter_def UKF_init_def)
    have xa: "x_aug not_pd_filter = [0, 0, 0, 0, 0, 0, 0]"
      by (simp add: x_aug_def not_pd_filter_def UKF_init_def Zero_vec_def set_head_def rep7 rep5)
    show ?thesis
      by (simp add: AugmentedSigmaPoints_def c xa not_pd_P_aug E_ref_def not_pd_llt matrixL_def
          Zero_mat_def rep7 rep15 upt7 vec_add_def vec_sub_def smult_def)
  qed
  ultimately show ?thesis using not_pd_filter_not_pd by simp
qed

section \<open>Weights\<close>

text \<open>
  C7. With \<open>n_aug = 7\<close>, \<open>\<lambda> = 3 - n_aug\<close> and 15 sigma points, the weights a prediction
  stores are 15 numbers, the first is \<open>\<lambda> / (\<lambda> + n_aug)\<close>, every other one is
  \<open>1 / (2 (\<lambda> + n_aug))\<close>, and they sum to 1.
\<close>

theorem prediction_weights:
  assumes "n_aug_m s = 7" and "n_sig_m s = 2 * 7 + 1" and "lambda_m s = 3 - 7"
  shows "length (weights_m (Prediction E s delta_t)) = 15 \<and>
         weights_m (Prediction E s delta_t) ! 0
           = lambda_m s / (lambda_m s + real (n_aug_m s)) \<and>
         (\<forall>i. 1 \<le> i \<and> i < 15 \<longrightarrow>
            weights_m (Prediction E s delta_t) ! i
              = 1 / (2 * (lambda_m s + real (n_aug_m s)))) \<and>
         sum_list (weights_m (Prediction E s delta_t)) = 1"
proof -
  have w: "weights_m (Prediction E s delta_t) = (- 4 / 3) # replicate 14 (1 / 6)"
    using assms by (simp add: weights_Prediction set_weights_7)
  have rest: "((- 4 / 3) # replicate 14 (1 / 6 :: real)) ! i = 1 / 6" if "1 \<le> i" "i < 15" for i
  proof -
    from that obtain j where "i = Suc j" "j < 14"
      by (cases i) auto
    then show ?thesis by simp
  qed
  have p: "lambda_m s + real (n_aug_m s) = 3"
    using assms by simp
  have "length (weights_m (Prediction E s delta_t)) = 15"
    by (simp add: w)
  moreover have "weights_m (Prediction E s delta_t) ! 0
      = lambda_m s / (lambda_m s + real (n_aug_m s))"
    using assms by (simp add: w)
  moreover have "\<forall>i. 1 \<le> i \<and> i < 15 \<longrightarrow>
      weights_m (Prediction E s delta_t) ! i = 1 / (2 * (lambda_m s + real (n_aug_m s)))"
  proof (intro allI impI)
    fix i :: nat
    assume a: "1 \<le> i \<and> i < 15"
    have "weights_m (Prediction E s delta_t) ! i = 1 / 6"
      unfolding w using a rest by blast
    also have "\<dots> = 1 / (2 * (lambda_m s + real (n_aug_m s)))"
      unfolding p by simp
    finally show "weights_m (Prediction E s delta_t) ! i
        = 1 / (2 * (lambda_m s + real (n_aug_m s)))" .
  qed
  moreover have "sum_list (weights_m (Prediction E s delta_t)) = 1"
    by (simp add: w sum_list_replicate)
  ultimately show ?thesis by blast
qed

theorem prediction_weights_witness:
  "n_aug_m UKF_init = 7 \<and> n_sig_m UKF_init = 2 * 7 + 1 \<and> lambda_m UKF_init = 3 - 7 \<and>
   weights_m (Prediction E_ref UKF_init 1) ! 0 = - 4 / 3 \<and>
   weights_m (Prediction E_ref UKF_init 1) ! 14 = 1 / 6 \<and>
   sum_list (weights_m (Prediction E_ref UKF_init 1)) = 1"
proof -
  have h: "n_aug_m UKF_init = 7" "n_sig_m UKF_init = 2 * 7 + 1" "lambda_m UKF_init = 3 - 7"
    by (simp_all add: UKF_init_def)
  show ?thesis
    using h prediction_weights [OF h, of E_ref 1] by simp
qed

section \<open>The radar measurement model near the origin\<close>

text \<open>
  C8. When both coordinates of a predicted sigma point are below machine epsilon in
  absolute value, the radar measurement model replaces both by machine epsilon, which is
  positive, before it computes bearing and range rate. The pair given to \<^verbatim>\<open>atan2\<close> is
  therefore never (0, 0) and the denominator of the range rate is never zero, for any
  sigma point; the range itself is computed from the coordinates as they were.
\<close>

theorem radar_guard_safe:
  "(\<bar>p_x\<bar> < epsilon \<and> \<bar>p_y\<bar> < epsilon \<longrightarrow> radar_guard p_x p_y = (epsilon, epsilon)) \<and>
   0 < epsilon \<and>
   radar_guard p_x p_y \<noteq> (0, 0) \<and>
   sqrt (fst (radar_guard p_x p_y) * fst (radar_guard p_x p_y)
         + snd (radar_guard p_x p_y) * snd (radar_guard p_x p_y)) \<noteq> 0 \<and>
   Zsig_radar_col [p_x, p_y, v, yaw, yawd] =
     (sqrt (p_x * p_x + p_y * p_y),
      atan2 (snd (radar_guard p_x p_y)) (fst (radar_guard p_x p_y)),
      (fst (radar_guard p_x p_y) * (cos yaw * v) + snd (radar_guard p_x p_y) * (sin yaw * v))
        / sqrt (fst (radar_guard p_x p_y) * fst (radar_guard p_x p_y)
                + snd (radar_guard p_x p_y) * snd (radar_guard p_x p_y))) \<and>
   (n_z_radar_m s = 3 \<and> i < n_sig_m s \<longrightarrow>
      Zsig_radar s ! i =
        (case Zsig_radar_col (Xsig_pred_m s ! i) of (r, phi, r_dot) \<Rightarrow> [r, phi, r_dot]))"
proof -
  have nz: "radar_guard p_x p_y \<noteq> (0, 0)"
    using epsilon_pos by (auto simp add: radar_guard_def)
  then have "fst (radar_guard p_x p_y) \<noteq> 0 \<or> snd (radar_guard p_x p_y) \<noteq> 0"
    by (cases "radar_guard p_x p_y") auto
  then have den: "sqrt (fst (radar_guard p_x p_y) * fst (radar_guard p_x p_y)
         + snd (radar_guard p_x p_y) * snd (radar_guard p_x p_y)) \<noteq> 0"
    by (auto simp add: add_nonneg_eq_0_iff)
  have col: "Zsig_radar_col [p_x, p_y, v, yaw, yawd] =
     (sqrt (p_x * p_x + p_y * p_y),
      atan2 (snd (radar_guard p_x p_y)) (fst (radar_guard p_x p_y)),
      (fst (radar_guard p_x p_y) * (cos yaw * v) + snd (radar_guard p_x p_y) * (sin yaw * v))
        / sqrt (fst (radar_guard p_x p_y) * fst (radar_guard p_x p_y)
                + snd (radar_guard p_x p_y) * snd (radar_guard p_x p_y)))"
    by (simp add: Zsig_radar_col_def Let_def split_def)
  show ?thesis
    using nz den col epsilon_pos Zsig_radar_nth [of s i]
    by (simp add: radar_guard_def)
qed

theorem radar_guard_safe_witness:
  "\<bar>0 :: real\<bar> < epsilon \<and> radar_guard 0 0 = (epsilon, epsilon) \<and>
   Zsig_radar_col [0, 0, 1, 0, 0] =
     (0, atan2 epsilon epsilon,
      (epsilon * (cos 0 * 1) + epsilon * (sin 0 * 1)) / sqrt (epsilon * epsilon + epsilon * epsilon)) \<and>
   n_z_radar_m nis_example = 3 \<and> (0 :: nat) < n_sig_m nis_example \<and>
   Zsig_radar nis_example ! 0 = [1, 0, 0]"
proof -
  have h: "\<bar>0 :: real\<bar> < epsilon" "n_z_radar_m nis_example = 3" "(0 :: nat) < n_sig_m nis_example"
    using epsilon_pos by (simp_all add: nis_example_def UKF_init_def)
  have g: "radar_guard 0 0 = (epsilon, epsilon)"
    using radar_guard_safe [of 0 0 1 0 0 nis_example 0] h by simp
  have "Zsig_radar_col [0, 0, 1, 0, 0] =
     (0, atan2 epsilon epsilon,
      (epsilon * (cos 0 * 1) + epsilon * (sin 0 * 1)) / sqrt (epsilon * epsilon + epsilon * epsilon))"
    using radar_guard_safe [of 0 0 1 0 0 nis_example 0] unfolding g by simp
  moreover have "Zsig_radar nis_example ! 0 = [1, 0, 0]"
    by (simp add: Zsig_radar_example)
  ultimately show ?thesis
    using h g by simp
qed

section \<open>An ignored measurement before initialization\<close>

text \<open>
  C10 (amended). A measurement of a disabled or unrecognized sensor type that reaches a
  filter that is not initialized changes the stored timestamp and nothing else: the filter
  stays uninitialized, with the same state vector and covariance. The timestamp it leaves
  is never read: whatever measurement comes next, the filter after it is the one it would
  have been had the ignored measurement never come.
\<close>

theorem ignored_before_initialization:
  assumes "\<not> is_initialized_m s"
      and "\<not> (use_radar_m s \<and> sensor_type_m m = RADAR)"
      and "\<not> (use_laser_m s \<and> sensor_type_m m = LASER)"
  shows "ProcessMeasurement E s m = s\<lparr> time_us_m := timestamp_m m \<rparr> \<and>
         ProcessMeasurement E (ProcessMeasurement E s m) m' = ProcessMeasurement E s m'"
  using assms by (auto simp add: ProcessMeasurement_def Let_def)

theorem ignored_before_initialization_witness:
  "\<not> is_initialized_m laser_off \<and> \<not> use_laser_m laser_off \<and>
   ProcessMeasurement E_ref laser_off
     \<lparr> timestamp_m = 1000000, sensor_type_m = LASER, raw_measurements_m = [1, 0.5] \<rparr>
     = laser_off\<lparr> time_us_m := 1000000 \<rparr> \<and>
   ProcessMeasurement E_ref
     (ProcessMeasurement E_ref laser_off
        \<lparr> timestamp_m = 1000000, sensor_type_m = LASER, raw_measurements_m = [1, 0.5] \<rparr>)
     \<lparr> timestamp_m = 3000000, sensor_type_m = RADAR, raw_measurements_m = [5, 0, 2] \<rparr>
     = ProcessMeasurement E_ref laser_off
         \<lparr> timestamp_m = 3000000, sensor_type_m = RADAR, raw_measurements_m = [5, 0, 2] \<rparr>"
proof -
  have h: "\<not> is_initialized_m laser_off" "\<not> use_laser_m laser_off"
    by (simp_all add: laser_off_def UKF_init_def)
  have t: "ProcessMeasurement E_ref laser_off
       \<lparr> timestamp_m = 1000000, sensor_type_m = LASER, raw_measurements_m = [1, 0.5] \<rparr>
     = laser_off\<lparr> time_us_m := timestamp_m
         \<lparr> timestamp_m = 1000000, sensor_type_m = LASER, raw_measurements_m = [1, 0.5] \<rparr> \<rparr> \<and>
     ProcessMeasurement E_ref
       (ProcessMeasurement E_ref laser_off
          \<lparr> timestamp_m = 1000000, sensor_type_m = LASER, raw_measurements_m = [1, 0.5] \<rparr>)
       \<lparr> timestamp_m = 3000000, sensor_type_m = RADAR, raw_measurements_m = [5, 0, 2] \<rparr>
     = ProcessMeasurement E_ref laser_off
         \<lparr> timestamp_m = 3000000, sensor_type_m = RADAR, raw_measurements_m = [5, 0, 2] \<rparr>"
    by (rule ignored_before_initialization) (simp_all add: h)
  have ts: "timestamp_m
      \<lparr> timestamp_m = 1000000, sensor_type_m = LASER, raw_measurements_m = [1, 0.5] \<rparr> = 1000000"
    by simp
  show ?thesis
    using h t unfolding ts by blast
qed

text \<open>The claim as written has the next accepted measurement take its elapsed time from
  the ignored measurement. With the laser off, a laser reading at 1 s is ignored; the radar
  reading at 3 s that follows bootstraps the filter exactly as if the laser reading had never
  come, and the first elapsed time ever computed, for a reading at 4 s, is 1 s.\<close>

theorem ignored_timestamp_unused_counterexample:
  "time_us_m (ProcessMeasurement E_ref laser_off
      \<lparr> timestamp_m = 1000000, sensor_type_m = LASER, raw_measurements_m = [1, 0.5] \<rparr>) = 1000000 \<and>
   ProcessMeasurement E_ref
     (ProcessMeasurement E_ref laser_off
        \<lparr> timestamp_m = 1000000, sensor_type_m = LASER, raw_measurements_m = [1, 0.5] \<rparr>)
     \<lparr> timestamp_m = 3000000, sensor_type_m = RADAR, raw_measurements_m = [5, 0, 2] \<rparr>
     = ProcessMeasurement E_ref laser_off
         \<lparr> timestamp_m = 3000000, sensor_type_m = RADAR, raw_measurements_m = [5, 0, 2] \<rparr> \<and>
   delta_t_of
     (ProcessMeasurement E_ref
       (ProcessMeasurement E_ref laser_off
          \<lparr> timestamp_m = 1000000, sensor_type_m = LASER, raw_measurements_m = [1, 0.5] \<rparr>)
       \<lparr> timestamp_m = 3000000, sensor_type_m = RADAR, raw_measurements_m = [5, 0, 2] \<rparr>)
     \<lparr> timestamp_m = 4000000, sensor_type_m = RADAR, raw_measurements_m = [6, 0, 2] \<rparr> = 1"
  by (simp add: ProcessMeasurement_def laser_off_def UKF_init_def delta_t_of_def)

section \<open>A measurement of a disabled sensor while ready\<close>

lemma laser_off_ready_eq:
  "laser_off_ready =
     UKF_init\<lparr> use_laser_m := False, x_m := [5, 0, 2, 0, 0], is_initialized_m := True,
               time_us_m := 0 \<rparr>"
  by (simp add: laser_off_ready_def laser_off_def ProcessMeasurement_def UKF_init_def)

text \<open>What the code does with a measurement of a disabled (or unrecognized) sensor type once
  the filter is initialized: it stores the measurement's timestamp and runs the prediction
  step for the elapsed time, and only then tests the toggles, which guard the two updates.\<close>

lemma disabled_sensor_runs_prediction:
  assumes "is_initialized_m s"
      and "\<not> (use_radar_m s \<and> sensor_type_m m = RADAR)"
      and "\<not> (use_laser_m s \<and> sensor_type_m m = LASER)"
  shows "ProcessMeasurement E s m
           = Prediction E (s\<lparr> time_us_m := timestamp_m m \<rparr>) (delta_t_of s m)"
  using assms
  by (auto simp add: ProcessMeasurement_def Prediction_def Let_def split_def)

text \<open>
  C1. The claim has a measurement of a disabled sensor type leave the state vector and the
  covariance of an initialized filter unchanged, as the comments on \<^verbatim>\<open>use_laser_\<close> and
  \<^verbatim>\<open>use_radar_\<close> in the constructor say (such measurements "will be ignored"). The code does
  not do so. With the laser switched off, once the radar reading (5, 0, 2) at time 0 has
  bootstrapped the filter, a laser reading one second later changes the covariance: the
  entry \<open>P(2,2)\<close> goes from 1 to 17/16, and the stored timestamp becomes the laser
  reading's. Both NIS values stay at their initial 0.
\<close>

theorem disabled_sensor_changes_covariance:
  "is_initialized_m laser_off_ready \<and> \<not> use_laser_m laser_off_ready \<and>
   P_m laser_off_ready ! 2 ! 2 = 1 \<and>
   P_m (ProcessMeasurement E_ref laser_off_ready
      \<lparr> timestamp_m = 1000000, sensor_type_m = LASER, raw_measurements_m = [7, 0] \<rparr>) ! 2 ! 2
     = 17 / 16 \<and>
   P_m (ProcessMeasurement E_ref laser_off_ready
      \<lparr> timestamp_m = 1000000, sensor_type_m = LASER, raw_measurements_m = [7, 0] \<rparr>)
     \<noteq> P_m laser_off_ready \<and>
   time_us_m laser_off_ready = 0 \<and>
   time_us_m (ProcessMeasurement E_ref laser_off_ready
      \<lparr> timestamp_m = 1000000, sensor_type_m = LASER, raw_measurements_m = [7, 0] \<rparr>) = 1000000 \<and>
   NIS_laser_m (ProcessMeasurement E_ref laser_off_ready
      \<lparr> timestamp_m = 1000000, sensor_type_m = LASER, raw_measurements_m = [7, 0] \<rparr>) = 0 \<and>
   NIS_radar_m (ProcessMeasurement E_ref laser_off_ready
      \<lparr> timestamp_m = 1000000, sensor_type_m = LASER, raw_measurements_m = [7, 0] \<rparr>) = 0"
proof -
  let ?m = "\<lparr> timestamp_m = 1000000, sensor_type_m = LASER, raw_measurements_m = [7, 0] \<rparr>"
  have h: "is_initialized_m laser_off_ready" "\<not> use_laser_m laser_off_ready"
    "time_us_m laser_off_ready = 0"
    by (simp_all add: laser_off_ready_eq UKF_init_def)
  have one: "P_m laser_off_ready ! 2 ! 2 = 1"
    by (simp add: laser_off_ready_eq UKF_init_def Identity_5)
  have ne: "P_m (ProcessMeasurement E_ref laser_off_ready ?m) \<noteq> P_m laser_off_ready"
    using one radar_then_laser_off by auto
  have run: "ProcessMeasurement E_ref laser_off_ready ?m
      = Prediction E_ref (laser_off_ready\<lparr> time_us_m := timestamp_m ?m \<rparr>)
          (delta_t_of laser_off_ready ?m)"
    by (rule disabled_sensor_runs_prediction) (simp_all add: h)
  have rest: "time_us_m (ProcessMeasurement E_ref laser_off_ready ?m) = 1000000"
    "NIS_laser_m (ProcessMeasurement E_ref laser_off_ready ?m) = 0"
    "NIS_radar_m (ProcessMeasurement E_ref laser_off_ready ?m) = 0"
    unfolding run
    by (simp_all add: Prediction_def Let_def split_def laser_off_ready_eq UKF_init_def)
  show ?thesis
    using h one ne rest radar_then_laser_off by blast
qed

section \<open>The normalized innovation squared\<close>

text \<open>
  C9. In both updates, when the innovation covariance \<open>S\<close> is positive definite and the
  matrix that \<^verbatim>\<open>S.inverse()\<close> returns is its inverse, the NIS value the update stores,
  \<^verbatim>\<open>z_diff.transpose() * S.inverse() * z_diff\<close>, is not negative.
\<close>

theorem nis_nonneg:
  "(positive_definite (S_lidar E s) \<and> inverse_of (inverse_mat E (S_lidar E s)) (S_lidar E s)
      \<longrightarrow> 0 \<le> NIS_laser_m (UpdateLidar E s m)) \<and>
   (positive_definite (S_radar E s) \<and> inverse_of (inverse_mat E (S_radar E s)) (S_radar E s)
      \<longrightarrow> 0 \<le> NIS_radar_m (UpdateRadar E s m))"
  by (auto simp add: UpdateLidar_def UpdateRadar_def Let_def intro: nis_quadratic)

theorem nis_nonneg_witness:
  "positive_definite (S_lidar E_ref nis_example) \<and>
   inverse_of (inverse_mat E_ref (S_lidar E_ref nis_example)) (S_lidar E_ref nis_example) \<and>
   0 \<le> NIS_laser_m (UpdateLidar E_ref nis_example
          \<lparr> timestamp_m = 1000000, sensor_type_m = LASER, raw_measurements_m = [1.2, 0.1] \<rparr>) \<and>
   positive_definite (S_radar E_ref nis_example) \<and>
   inverse_of (inverse_mat E_ref (S_radar E_ref nis_example)) (S_radar E_ref nis_example) \<and>
   0 \<le> NIS_radar_m (UpdateRadar E_ref nis_example
          \<lparr> timestamp_m = 1000000, sensor_type_m = RADAR, raw_measurements_m = [1.2, 0.1, 0.3] \<rparr>)"
proof -
  have l: "positive_definite (S_lidar E_ref nis_example)"
    "inverse_of (inverse_mat E_ref (S_lidar E_ref nis_example)) (S_lidar E_ref nis_example)"
    unfolding S_lidar_example using inverse_R_lidar by (simp_all add: pd_diag2 E_ref_def)
  have r: "positive_definite (S_radar E_ref nis_example)"
    "inverse_of (inverse_mat E_ref (S_radar E_ref nis_example)) (S_radar E_ref nis_example)"
    unfolding S_radar_example using inverse_R_radar by (simp_all add: pd_diag3 E_ref_def)
  show ?thesis
    using l r
      nis_nonneg [of E_ref nis_example
        "\<lparr> timestamp_m = 1000000, sensor_type_m = LASER, raw_measurements_m = [1.2, 0.1] \<rparr>"]
      nis_nonneg [of E_ref nis_example
        "\<lparr> timestamp_m = 1000000, sensor_type_m = RADAR, raw_measurements_m = [1.2, 0.1, 0.3] \<rparr>"]
    by blast
qed

end
